theory Spec2Isabelle
  imports Complex_Main
begin

section \<open>Data model\<close>

text \<open>
  Floating-point numbers are modelled as exact reals. Every \<open>raise\<close> of the source is
  a value of \<open>error\<close> on the left of a sum. \<open>NonFinite\<close> is not an exception of the
  source: it marks the places where numpy would produce \<open>inf\<close> or \<open>nan\<close> (a division by
  zero, the mean of no rows), values that the reals do not have.
\<close>

datatype error = ValueError | NotImplementedError | TypeError | IndexError
  | ZeroDivisionError | LinAlgError | NonFinite

fun bind_err :: "error + 'a \<Rightarrow> ('a \<Rightarrow> error + 'b) \<Rightarrow> error + 'b" where
  "bind_err (Inl e) f = Inl e"
| "bind_err (Inr x) f = f x"

lemma bind_err_Inr: "bind_err m f = Inr r \<longleftrightarrow> (\<exists>x. m = Inr x \<and> f x = Inr r)"
  by (cases m) auto

fun sequence_err :: "(error + 'a) list \<Rightarrow> error + 'a list" where
  "sequence_err [] = Inr []"
| "sequence_err (x # xs) =
     bind_err x (\<lambda>y. bind_err (sequence_err xs) (\<lambda>ys. Inr (y # ys)))"

text \<open>
  A two-dimensional numpy array: the rows, and the number of columns (which numpy
  knows even when there is no row).
\<close>

record ndarray =
  ncols :: nat
  rows :: "real list list"

definition shape0 :: "ndarray \<Rightarrow> nat" where
  "shape0 m = length (rows m)"

definition shape1 :: "ndarray \<Rightarrow> nat" where
  "shape1 m = ncols m"

definition rectangular :: "ndarray \<Rightarrow> bool" where
  "rectangular m = list_all (\<lambda>r. length r = ncols m) (rows m)"

text \<open>What \<open>np.atleast_2d\<close> accepts: a number, a flat list, or a matrix.\<close>

datatype array_like = Scalar real | Flat "real list" | Matrix ndarray

fun atleast_2d :: "array_like \<Rightarrow> ndarray" where
  "atleast_2d (Scalar x) = \<lparr>ncols = 1, rows = [[x]]\<rparr>"
| "atleast_2d (Flat xs) = \<lparr>ncols = length xs, rows = [xs]\<rparr>"
| "atleast_2d (Matrix m) = m"

definition column :: "ndarray \<Rightarrow> nat \<Rightarrow> real list" where
  "column m j = map (\<lambda>r. r ! j) (rows m)"

definition transpose_nd :: "ndarray \<Rightarrow> ndarray" where
  "transpose_nd m = \<lparr>ncols = length (rows m), rows = map (column m) [0..<ncols m]\<rparr>"

definition dot :: "real list \<Rightarrow> real list \<Rightarrow> real" where
  "dot xs ys = sum_list (map2 (*) xs ys)"

text \<open>The operator \<open>@\<close> of numpy: it raises when the inner dimensions differ.\<close>

definition matmul :: "ndarray \<Rightarrow> ndarray \<Rightarrow> error + ndarray" where
  "matmul a b =
     (if ncols a \<noteq> length (rows b) then Inl ValueError
      else Inr \<lparr>ncols = ncols b,
                rows = map (\<lambda>r. map (\<lambda>j. dot r (column b j)) [0..<ncols b]) (rows a)\<rparr>)"

text \<open>
  An elementwise operation with numpy's broadcasting along the first axis: the row
  counts are equal, or one of them is 1.
\<close>

definition broadcast_op ::
  "(real \<Rightarrow> real \<Rightarrow> real) \<Rightarrow> real list list \<Rightarrow> real list list \<Rightarrow> error + real list list" where
  "broadcast_op f a b =
     (if length a = length b then Inr (map2 (map2 f) a b)
      else if length a = 1 then Inr (map (map2 f (hd a)) b)
      else if length b = 1 then Inr (map (\<lambda>r. map2 f r (hd b)) a)
      else Inl ValueError)"

text \<open>\<open>np.linspace(start, stop, num)\<close>.\<close>

definition linspace :: "real \<Rightarrow> real \<Rightarrow> nat \<Rightarrow> real list" where
  "linspace a b n =
     (if n = 1 then [a]
      else map (\<lambda>i. a + real i * ((b - a) / real (n - 1))) [0..<n])"

text \<open>
  \<open>Basis\<close>: the concrete class (\<open>type(self)\<close>, by its name), the one interval of the
  domain, and the number of basis functions.
\<close>

record basis =
  family :: string
  domain_range :: "real \<times> real"
  n_basis :: nat

text \<open>\<open>_same_domain\<close> is \<open>np.array_equal\<close> on the two domain ranges.\<close>

definition same_domain :: "real \<times> real \<Rightarrow> real \<times> real \<Rightarrow> bool" where
  "same_domain d e = (d = e)"

text \<open>
  \<open>Basis.__init__\<close>: \<open>_check_domain\<close> rejects an interval whose ends are not in strict
  order, and the number of basis functions is at least 1. Without a domain range the
  property \<open>domain_range\<close> answers \<open>(0, 1)\<close>.
\<close>

definition Basis_init :: "string \<Rightarrow> (real \<times> real) option \<Rightarrow> nat \<Rightarrow> error + basis" where
  "Basis_init fam d n =
     (if (case d of None \<Rightarrow> False | Some (a, b) \<Rightarrow> a \<ge> b) then Inl ValueError
      else if n < 1 then Inl ValueError
      else Inr \<lparr>family = fam,
                domain_range = (case d of None \<Rightarrow> (0, 1) | Some r \<Rightarrow> r),
                n_basis = n\<rparr>)"

text \<open>\<open>Basis.rescale\<close>: \<open>type(self)(domain_range, self.n_basis)\<close>.\<close>

definition rescale :: "basis \<Rightarrow> (real \<times> real) option \<Rightarrow> error + basis" where
  "rescale b d =
     Basis_init (family b) (Some (case d of None \<Rightarrow> domain_range b | Some r \<Rightarrow> r))
       (n_basis b)"

record fdatabasis =
  basis :: basis
  coefficients :: ndarray

text \<open>\<open>FDataBasis.__init__\<close>.\<close>

definition FDataBasis :: "basis \<Rightarrow> array_like \<Rightarrow> error + fdatabasis" where
  "FDataBasis b c =
     (let c2 = atleast_2d c in
      if shape1 c2 \<noteq> n_basis b then Inl ValueError
      else Inr \<lparr>basis = b, coefficients = c2\<rparr>)"

definition n_samples :: "fdatabasis \<Rightarrow> nat" where
  "n_samples fd = shape0 (coefficients fd)"

definition fd_n_basis :: "fdatabasis \<Rightarrow> nat" where
  "fd_n_basis fd = n_basis (basis fd)"

definition fd_domain_range :: "fdatabasis \<Rightarrow> real \<times> real" where
  "fd_domain_range fd = domain_range (basis fd)"

text \<open>
  \<open>FDataBasis.copy\<close>: the basis and the coefficients are those of \<open>self\<close> unless given,
  and the result is built by the constructor.
\<close>

definition copy :: "fdatabasis \<Rightarrow> basis option \<Rightarrow> array_like option \<Rightarrow> error + fdatabasis" where
  "copy fd b c =
     FDataBasis (case b of None \<Rightarrow> basis fd | Some b' \<Rightarrow> b')
                (case c of None \<Rightarrow> Matrix (coefficients fd) | Some c' \<Rightarrow> c')"

text \<open>\<open>Basis.to_basis\<close>: the basis functions themselves, with identity coefficients.\<close>

definition identity :: "nat \<Rightarrow> ndarray" where
  "identity n =
     \<lparr>ncols = n, rows = map (\<lambda>i. map (\<lambda>j. if i = j then 1 else 0) [0..<n]) [0..<n]\<rparr>"

definition to_basis :: "basis \<Rightarrow> error + fdatabasis" where
  "to_basis b = FDataBasis b (Matrix (identity (n_basis b)))"

text \<open>\<open>FDataBasis.__getitem__\<close> with an integer key \<open>i \<ge> 0\<close>: the slice \<open>[i:i+1]\<close>.\<close>

definition getitem :: "fdatabasis \<Rightarrow> nat \<Rightarrow> error + fdatabasis" where
  "getitem fd i =
     copy fd None
       (Some (Matrix \<lparr>ncols = ncols (coefficients fd),
                      rows = take 1 (drop i (rows (coefficients fd)))\<rparr>))"

section \<open>External collaborators\<close>

text \<open>
  The parts of the library that the source calls and does not define: the evaluation
  rule of the concrete basis family (\<open>Basis._evaluate\<close>, abstract in the source; the
  result has one row per basis function), the least-squares projection \<open>from_data\<close>
  (done by \<open>BasisSmoother\<close>), \<open>basis_of_product\<close> (abstract in the source),
  \<open>scipy.integrate.quad\<close>, the inner-product matrix of two bases, and the derivative
  rule of the family (\<open>Basis._derivative\<close>, abstract in the source).
\<close>

record externals =
  basis_evaluate :: "basis \<Rightarrow> real list \<Rightarrow> nat \<Rightarrow> ndarray"
  from_data :: "real list list \<Rightarrow> real list \<Rightarrow> basis \<Rightarrow> error + fdatabasis"
  basis_of_product :: "basis \<Rightarrow> basis \<Rightarrow> error + basis"
  quad :: "(real \<Rightarrow> error + real) \<Rightarrow> real \<Rightarrow> real \<Rightarrow> error + real"
  inner_matrix :: "basis \<Rightarrow> basis \<Rightarrow> ndarray"
  basis_derivative :: "basis \<Rightarrow> ndarray \<Rightarrow> nat \<Rightarrow> error + basis \<times> ndarray"

text \<open>
  Modelled from the spec: the module \<open>constants\<close> is not in the source; section 9 of
  the spec gives \<open>N_POINTS_COARSE_MESH=201\<close> and \<open>BASIS_MIN_FACTOR=10\<close>.
\<close>

definition N_POINTS_COARSE_MESH :: nat where
  "N_POINTS_COARSE_MESH = 201"

definition BASIS_MIN_FACTOR :: nat where
  "BASIS_MIN_FACTOR = 10"

section \<open>Evaluation\<close>

text \<open>
  \<open>FDataBasis._evaluate\<close>: the basis is evaluated once and combined with the
  coefficients (\<open>np.tensordot\<close> over the basis axis). The public \<open>evaluate\<close> is a
  method of the base class \<open>FData\<close>, which is not in the source; it is taken to hand
  the points to \<open>_evaluate\<close>, or to \<open>_evaluate_composed\<close> when every sample has its
  own points.
\<close>

definition evaluate :: "externals \<Rightarrow> fdatabasis \<Rightarrow> real list \<Rightarrow> nat \<Rightarrow> error + real list list" where
  "evaluate E fd eval_points derivative =
     bind_err (matmul (coefficients fd) (basis_evaluate E (basis fd) eval_points derivative))
       (\<lambda>res. Inr (rows res))"

text \<open>
  \<open>FDataBasis._evaluate_composed\<close>: sample \<open>i\<close> is evaluated at row \<open>i\<close> of the points;
  the basis values are multiplied by the coefficients of the sample and summed.
\<close>

definition evaluate_composed ::
  "externals \<Rightarrow> fdatabasis \<Rightarrow> real list list \<Rightarrow> nat \<Rightarrow> error + real list list" where
  "evaluate_composed E fd eval_points derivative =
     sequence_err (map (\<lambda>i.
        let basis_values = transpose_nd (basis_evaluate E (basis fd) (eval_points ! i) derivative);
            c = rows (coefficients fd) ! i
        in if ncols basis_values \<noteq> length c then Inl ValueError
           else Inr (map (\<lambda>r. dot r c) (rows basis_values)))
       [0..<n_samples fd])"

section \<open>Product and inner product\<close>

datatype times_arg = TFData fdatabasis | TInt int | TList "real list"

definition times_neval :: "fdatabasis \<Rightarrow> fdatabasis \<Rightarrow> nat" where
  "times_neval fd other =
     max (BASIS_MIN_FACTOR * max (fd_n_basis fd) (fd_n_basis other) + 1) N_POINTS_COARSE_MESH"

text \<open>
  The first part of \<open>times\<close> for two functional objects: everything up to the call of
  \<open>from_data\<close>, whose three arguments are returned.
\<close>

definition times_discretize ::
  "externals \<Rightarrow> fdatabasis \<Rightarrow> fdatabasis \<Rightarrow> error + (real list list \<times> real list \<times> basis)" where
  "times_discretize E fd other =
     (if \<not> same_domain (fd_domain_range fd) (fd_domain_range other) then Inl ValueError
      else
        bind_err (basis_of_product E (basis fd) (basis other)) (\<lambda>basisobj.
        let neval = times_neval fd other;
            (left, right) = fd_domain_range fd;
            evalarg = linspace left right neval
        in
        bind_err (copy fd None (Some (Matrix
                   (if n_samples fd = 1 \<and> n_samples other > 1
                    then \<lparr>ncols = ncols (coefficients fd),
                          rows = replicate (n_samples other) (hd (rows (coefficients fd)))\<rparr>
                    else coefficients fd)))) (\<lambda>first.
        bind_err (copy other None (Some (Matrix
                   (if n_samples other = 1 \<and> n_samples fd > 1
                    then \<lparr>ncols = ncols (coefficients other),
                          rows = replicate (n_samples fd) (hd (rows (coefficients other)))\<rparr>
                    else coefficients other)))) (\<lambda>second.
        bind_err (evaluate E first evalarg 0) (\<lambda>v1.
        bind_err (evaluate E second evalarg 0) (\<lambda>v2.
        bind_err (broadcast_op (*) v1 v2) (\<lambda>fdarray.
        Inr (fdarray, evalarg, basisobj))))))))"

definition times_fd :: "externals \<Rightarrow> fdatabasis \<Rightarrow> times_arg \<Rightarrow> error + fdatabasis" where
  "times_fd E fd other =
     (case other of
        TFData o2 \<Rightarrow>
          bind_err (times_discretize E fd o2)
            (\<lambda>(fdarray, evalarg, basisobj). from_data E fdarray evalarg basisobj)
      | _ \<Rightarrow>
          let xs = (case other of TInt k \<Rightarrow> replicate (n_samples fd) (real_of_int k)
                                | TList ys \<Rightarrow> ys | _ \<Rightarrow> []);
              coefs = map (\<lambda>x. replicate (ncols (coefficients fd)) x) xs
          in bind_err (broadcast_op (*) (rows (coefficients fd)) coefs)
               (\<lambda>r. copy fd None (Some (Matrix \<lparr>ncols = ncols (coefficients fd), rows = r\<rparr>))))"

datatype ip_arg = IPFData fdatabasis | IPBasis basis

definition arg_domain_range :: "ip_arg \<Rightarrow> real \<times> real" where
  "arg_domain_range other =
     (case other of IPFData fd \<Rightarrow> fd_domain_range fd | IPBasis b \<Rightarrow> domain_range b)"

text \<open>
  \<open>_inner_product_integrate\<close>: entry \<open>(i, j)\<close> is the quadrature over the domain of
  the product of sample \<open>i\<close> and sample \<open>j\<close>, built by \<open>times\<close> and evaluated point by
  point. The two differential operators are not used by the source.
\<close>

definition integrand :: "externals \<Rightarrow> fdatabasis \<Rightarrow> real \<Rightarrow> error + real" where
  "integrand E fd x =
     bind_err (evaluate E fd [x] 0)
       (\<lambda>v. case v of
              [] \<Rightarrow> Inl IndexError
            | r # _ \<Rightarrow> (case r of [] \<Rightarrow> Inl TypeError | y # _ \<Rightarrow> Inr y))"

definition inner_product_integrate ::
  "externals \<Rightarrow> fdatabasis \<Rightarrow> fdatabasis \<Rightarrow> error + ndarray" where
  "inner_product_integrate E fd other =
     (let (left, right) = fd_domain_range fd in
      bind_err
        (sequence_err (map (\<lambda>i.
           sequence_err (map (\<lambda>j.
             bind_err (getitem fd i) (\<lambda>fi.
             bind_err (getitem other j) (\<lambda>oj.
             bind_err (times_fd E fi (TFData oj)) (\<lambda>p.
             quad E (integrand E p) left right))))
           [0..<n_samples other]))
         [0..<n_samples fd]))
        (\<lambda>rs. Inr \<lparr>ncols = n_samples other, rows = rs\<rparr>))"

text \<open>
  \<open>FDataBasis.inner_product\<close>. The second operand is a functional object or a basis;
  the weights, when given, are multiplied into the second operand first.
\<close>

definition inner_product ::
  "externals \<Rightarrow> fdatabasis \<Rightarrow> ip_arg \<Rightarrow> fdatabasis option \<Rightarrow> error + ndarray" where
  "inner_product E fd other weights =
     (if \<not> same_domain (fd_domain_range fd) (arg_domain_range other) then Inl ValueError
      else
        bind_err (case other of IPBasis b \<Rightarrow> to_basis b | IPFData o1 \<Rightarrow> Inr o1) (\<lambda>o1.
        bind_err (case weights of None \<Rightarrow> Inr o1 | Some w \<Rightarrow> times_fd E o1 (TFData w)) (\<lambda>o2.
        if n_samples fd * n_samples o2 > fd_n_basis fd * fd_n_basis o2
        then bind_err (matmul (coefficients fd) (inner_matrix E (basis fd) (basis o2)))
               (\<lambda>m. matmul m (transpose_nd (coefficients o2)))
        else inner_product_integrate E fd o2)))"

section \<open>Shift\<close>

datatype shift_arg = ShiftScalar real | ShiftVector "real list"

text \<open>
  \<open>FDataBasis.shift\<close> up to the call of \<open>from_data\<close>, whose three arguments are
  returned: the data matrix, the sample points and the rescaled basis. The shifted
  evaluation is \<open>_evaluate_composed\<close> (the wrapper \<open>FData.evaluate\<close> and its
  extrapolation policies are not in the source). \<open>np.min\<close> and \<open>np.max\<close> raise on an
  empty vector.
\<close>

definition shift_discretize ::
  "externals \<Rightarrow> fdatabasis \<Rightarrow> shift_arg \<Rightarrow> bool \<Rightarrow> real list option
     \<Rightarrow> error + (real list list \<times> real list \<times> basis)" where
  "shift_discretize E fd shifts restrict_domain eval_points =
     (let (d0, d1) = fd_domain_range fd;
          pts = (case eval_points of
                   None \<Rightarrow> linspace d0 d1 (max (fd_n_basis fd * 10 + 1) N_POINTS_COARSE_MESH)
                 | Some p \<Rightarrow> p)
      in case shifts of
           ShiftScalar s \<Rightarrow>
             bind_err (rescale (basis fd) (Some (d0 + s, d1 + s))) (\<lambda>b.
             bind_err (evaluate E fd pts 0) (\<lambda>v.
             Inr (v, map (\<lambda>t. t + s) pts, b)))
         | ShiftVector sv \<Rightarrow>
             if length sv \<noteq> n_samples fd then Inl ValueError
             else
               bind_err
                 (if restrict_domain then
                    (if sv = [] then Inl ValueError
                     else let a = d0 - min (Min (set sv)) 0;
                              b = d1 - max (Max (set sv)) 0
                          in Inr ((a, b), filter (\<lambda>t. t \<ge> a \<and> t \<le> b) pts))
                  else Inr ((d0, d1), pts))
                 (\<lambda>(domain, pts').
               bind_err (evaluate_composed E fd (map (\<lambda>s. map (\<lambda>t. t + s) pts') sv) 0)
                 (\<lambda>data_matrix.
               bind_err (rescale (basis fd) (Some domain)) (\<lambda>b.
               Inr (data_matrix, pts', b)))))"

definition shift ::
  "externals \<Rightarrow> fdatabasis \<Rightarrow> shift_arg \<Rightarrow> bool \<Rightarrow> real list option \<Rightarrow> error + fdatabasis" where
  "shift E fd shifts restrict_domain eval_points =
     bind_err (shift_discretize E fd shifts restrict_domain eval_points)
       (\<lambda>(data_matrix, pts, b). from_data E data_matrix pts b)"

section \<open>Other operations that build a functional object\<close>

text \<open>\<open>FDataBasis.derivative\<close>.\<close>

definition derivative :: "externals \<Rightarrow> fdatabasis \<Rightarrow> int \<Rightarrow> error + fdatabasis" where
  "derivative E fd order =
     (if order < 0 then Inl ValueError
      else if order = 0 then copy fd None None
      else bind_err (basis_derivative E (basis fd) (coefficients fd) (nat order))
             (\<lambda>(b, c). FDataBasis b (Matrix c)))"

text \<open>
  \<open>FDataBasis.mean\<close>: \<open>np.average\<close> raises when the weights do not match the rows or
  sum to zero; \<open>np.mean\<close> of no rows is \<open>nan\<close>.
\<close>

definition mean :: "fdatabasis \<Rightarrow> real list option \<Rightarrow> error + fdatabasis" where
  "mean fd weights =
     (let c = coefficients fd in
      case weights of
        Some w \<Rightarrow>
          if length w \<noteq> n_samples fd then Inl ValueError
          else if sum_list w = 0 then Inl ZeroDivisionError
          else copy fd None (Some (Matrix
                 \<lparr>ncols = ncols c,
                  rows = [map (\<lambda>j. dot w (column c j) / sum_list w) [0..<ncols c]]\<rparr>))
      | None \<Rightarrow>
          if n_samples fd = 0 then Inl NonFinite
          else copy fd None (Some (Flat
                 (map (\<lambda>j. sum_list (column c j) / real (n_samples fd)) [0..<ncols c]))))"

text \<open>
  \<open>FDataBasis.concatenate\<close> (samples only): \<open>np.concatenate\<close> raises when the column
  counts differ.
\<close>

definition concatenate :: "fdatabasis \<Rightarrow> fdatabasis list \<Rightarrow> error + fdatabasis" where
  "concatenate fd others =
     (if list_ex (\<lambda>other. basis other \<noteq> basis fd) others then Inl ValueError
      else if list_ex (\<lambda>other. ncols (coefficients other) \<noteq> ncols (coefficients fd)) others
      then Inl ValueError
      else copy fd None (Some (Matrix
             \<lparr>ncols = ncols (coefficients fd),
              rows = concat (map (\<lambda>other. rows (coefficients other)) (fd # others))\<rparr>)))"

text \<open>
  \<open>__add__\<close>, \<open>__sub__\<close> and \<open>__mul__\<close> with another functional object or a number.
  Two objects of the same basis are combined coefficient by coefficient; a number is
  added to or subtracted from the first coefficient of every sample.
\<close>

datatype arith_arg = AFData fdatabasis | AConst real

definition add_sub ::
  "(real \<Rightarrow> real \<Rightarrow> real) \<Rightarrow> fdatabasis \<Rightarrow> arith_arg \<Rightarrow> error + fdatabasis" where
  "add_sub f fd other =
     (case other of
        AFData o2 \<Rightarrow>
          if basis fd \<noteq> basis o2 then Inl NotImplementedError
          else if ncols (coefficients fd) \<noteq> ncols (coefficients o2) then Inl ValueError
          else bind_err (broadcast_op f (rows (coefficients fd)) (rows (coefficients o2)))
                 (\<lambda>r. copy fd (Some (basis fd))
                        (Some (Matrix \<lparr>ncols = ncols (coefficients fd), rows = r\<rparr>)))
      | AConst k \<Rightarrow>
          if ncols (coefficients fd) = 0 then Inl IndexError
          else copy fd (Some (basis fd))
                 (Some (Matrix \<lparr>ncols = ncols (coefficients fd),
                                rows = map (\<lambda>r. f (hd r) k # tl r) (rows (coefficients fd))\<rparr>)))"

definition add :: "fdatabasis \<Rightarrow> arith_arg \<Rightarrow> error + fdatabasis" where
  "add = add_sub (+)"

definition sub :: "fdatabasis \<Rightarrow> arith_arg \<Rightarrow> error + fdatabasis" where
  "sub = add_sub (-)"

definition mul :: "fdatabasis \<Rightarrow> arith_arg \<Rightarrow> error + fdatabasis" where
  "mul fd other =
     (case other of
        AFData o2 \<Rightarrow> Inl NotImplementedError
      | AConst k \<Rightarrow>
          copy fd (Some (basis fd))
            (Some (Matrix \<lparr>ncols = ncols (coefficients fd),
                           rows = map (map (\<lambda>v. v * k)) (rows (coefficients fd))\<rparr>)))"

text \<open>The invariant of the class: as many coefficient columns as basis functions.\<close>

definition invariant :: "fdatabasis \<Rightarrow> bool" where
  "invariant fd = (shape1 (coefficients fd) = n_basis (basis fd))"

section \<open>Registration\<close>

text \<open>
  \<open>registration.py\<close> is written against the functional object of its time (attributes
  \<open>nsamples\<close>, \<open>nbasis\<close>, \<open>default_extrapolation\<close>; methods \<open>evaluate\<close>,
  \<open>evaluate_shifted\<close> and \<open>shift\<close> with the arguments \<open>ext\<close> and \<open>tfine\<close>), which is
  not in the source in that form. The record holds what the module reads and calls;
  \<open>evaluate_shifted tfine delta ext\<close> has row \<open>i\<close> equal to sample \<open>i\<close> at the points
  \<open>tfine + delta[i]\<close>.
\<close>

datatype ext_arg = ExtDefault | ExtBasis | ExtPeriodic | ExtSlice | ExtOther

record 'r reg_fd =
  nsamples :: nat
  nbasis :: nat
  reg_domain_range :: "real \<times> real"
  default_extrapolation :: ext_arg
  reg_evaluate :: "real list \<Rightarrow> nat \<Rightarrow> error + real list list"
  evaluate_shifted :: "real list \<Rightarrow> real list \<Rightarrow> bool \<Rightarrow> error + real list list"
  reg_shift :: "real list \<Rightarrow> ext_arg \<Rightarrow> real list \<Rightarrow> error + 'r"


text \<open>
  \<open>scipy.integrate.trapz(y, x)\<close> on one row: the sum of
  \<open>(x[k+1] - x[k]) * (y[k+1] + y[k]) / 2\<close>; the lengths must agree.
\<close>

definition trapz :: "real list \<Rightarrow> real list \<Rightarrow> error + real" where
  "trapz y x =
     (if length y \<noteq> length x then Inl ValueError
      else Inr (sum_list (map (\<lambda>k. (x ! (k + 1) - x ! k) * (y ! (k + 1) + y ! k) / 2)
                              [0..<length x - 1])))"

definition trapz_rows :: "real list list \<Rightarrow> real list \<Rightarrow> error + real list" where
  "trapz_rows ys x = sequence_err (map (\<lambda>y. trapz y x) ys)"

text \<open>Indexing with a boolean mask.\<close>

definition select :: "bool list \<Rightarrow> 'a list \<Rightarrow> 'a list" where
  "select msk xs = map fst (filter snd (zip xs msk))"

text \<open>The mean over the rows (\<open>x.mean(axis=0)\<close>) of a matrix with \<open>m\<close> columns.\<close>

definition mean_axis0 :: "nat \<Rightarrow> real list list \<Rightarrow> real list" where
  "mean_axis0 m x = map (\<lambda>j. sum_list (map (\<lambda>r. r ! j) x) / real (length x)) [0..<m]"

text \<open>Elementwise division: numpy gives \<open>inf\<close> or \<open>nan\<close> for a zero divisor.\<close>

definition divide_rows :: "real list \<Rightarrow> real list \<Rightarrow> error + real list" where
  "divide_rows a b =
     (if length a \<noteq> length b then Inl ValueError
      else if 0 \<in> set b then Inl NonFinite
      else Inr (map2 (/) a b))"

record reg_params =
  maxiter :: int
  tol :: real
  alpha :: real
  periodic :: bool
  periodic_ext :: bool
  D1x_tmp :: "real list list"
  tfine_tmp :: "real list"

record reg_state =
  delta :: "real list"
  max_diff :: real
  iter :: int
  tfine :: "real list"
  D1x :: "real list list"
  d2_regsse :: "real list"

text \<open>
  The mask \<open>domain\<close> of the non-periodic case: the points of the original mesh inside
  \<open>[domain_range[0] - a, domain_range[1] - b]\<close> with \<open>a = min(min(delta), 0)\<close> and
  \<open>b = max(max(delta), 0)\<close>.
\<close>

definition domain_mask :: "real \<times> real \<Rightarrow> real list \<Rightarrow> real list \<Rightarrow> bool list" where
  "domain_mask dr dl mesh =
     (let a = min (Min (set dl)) 0;
          b = max (Max (set dl)) 0
      in map (\<lambda>t. t \<ge> fst dr - a \<and> t \<le> snd dr - b) mesh)"

text \<open>
  One pass through the body of the Newton-Raphson loop, in its two parts. The shapes
  that numpy checks (the \<open>out=\<close> buffers, the elementwise operations) are checked
  here; broadcasting of a single row does not arise, since every matrix has one row per
  sample.

  First part: in the non-periodic case the mesh, the derivative values and the
  second-derivative term are restricted to the mask; otherwise they stay.
\<close>

definition loop_mesh ::
  "'r reg_fd \<Rightarrow> reg_params \<Rightarrow> reg_state \<Rightarrow> error + (real list \<times> real list list \<times> real list)" where
  "loop_mesh fd P st =
     (if \<not> periodic P then
        (if delta st = [] then Inl ValueError
         else let msk = domain_mask (reg_domain_range fd) (delta st) (tfine_tmp P);
                  tf = select msk (tfine_tmp P);
                  D = map (select msk) (D1x_tmp P)
              in bind_err (trapz_rows (map (map (\<lambda>v. v * v)) D) tf) (\<lambda>d2. Inr (tf, D, d2)))
      else Inr (tfine st, D1x st, d2_regsse st))"

text \<open>Second part: the shifted evaluation, the first-derivative term and the update.\<close>

definition newton_update ::
  "'r reg_fd \<Rightarrow> reg_params \<Rightarrow> reg_state \<Rightarrow> real list \<Rightarrow> real list list \<Rightarrow> real list
     \<Rightarrow> error + reg_state" where
  "newton_update fd P st tf D d2 =
     bind_err (evaluate_shifted fd tf (delta st) (periodic_ext P)) (\<lambda>x.
     if length x \<noteq> length D \<or> list_ex (\<lambda>r. length r \<noteq> length tf) x then Inl ValueError
     else
       let mu = mean_axis0 (length tf) x;
           xc = map (\<lambda>r. map2 (-) r mu) x
       in
       bind_err (trapz_rows (map2 (map2 (*)) xc D) tf) (\<lambda>d1_regsse.
       bind_err (divide_rows d1_regsse d2) (\<lambda>q.
       let delta_aux = map (\<lambda>v. v * alpha P) q in
       if length delta_aux \<noteq> length (delta st) then Inl ValueError
       else if delta_aux = [] then Inl ValueError
       else Inr \<lparr>delta = map2 (-) (delta st) delta_aux,
                 max_diff = Max (set (map abs delta_aux)),
                 iter = iter st + 1,
                 tfine = tf, D1x = D, d2_regsse = d2\<rparr>)))"

definition newton_step :: "'r reg_fd \<Rightarrow> reg_params \<Rightarrow> reg_state \<Rightarrow> error + reg_state" where
  "newton_step fd P st =
     bind_err (loop_mesh fd P st) (\<lambda>(tf, D, d2). newton_update fd P st tf D d2)"






datatype 'r shift_result = Shifts "real list" | Shifted 'r


section \<open>Landmark alignment\<close>

datatype location = Minimize | Mean | Median | Middle | Number real | Invalid

definition median :: "real list \<Rightarrow> real" where
  "median xs =
     (let s = sort xs; n = length xs in
      if even n then (s ! (n div 2 - 1) + s ! (n div 2)) / 2 else s ! (n div 2))"

text \<open>
  \<open>landmark_shift\<close>: \<open>numpy.max\<close> and \<open>numpy.min\<close> raise on an empty array, the mean and
  the median of an empty array are \<open>nan\<close>.
\<close>

definition landmark_shift ::
  "'r reg_fd \<Rightarrow> real list \<Rightarrow> location \<Rightarrow> ext_arg \<Rightarrow> real list \<Rightarrow> bool
     \<Rightarrow> error + 'r shift_result" where
  "landmark_shift fd landmarks loc ext tfine' shifts_array =
     (if length landmarks \<noteq> nsamples fd then Inl ValueError
      else
        bind_err
          (case loc of
             Minimize \<Rightarrow>
               if landmarks = [] then Inl ValueError
               else Inr ((Max (set landmarks) + Min (set landmarks)) / 2)
           | Mean \<Rightarrow>
               if landmarks = [] then Inl NonFinite
               else Inr (sum_list landmarks / real (length landmarks))
           | Median \<Rightarrow>
               if landmarks = [] then Inl NonFinite else Inr (median landmarks)
           | Middle \<Rightarrow> Inr ((snd (reg_domain_range fd) + fst (reg_domain_range fd)) / 2)
           | Number p \<Rightarrow> Inr p
           | Invalid \<Rightarrow> Inl ValueError) (\<lambda>p.
        let shifts = map (\<lambda>l. l - p) landmarks in
        if shifts_array then Inr (Shifts shifts)
        else bind_err (reg_shift fd shifts ext tfine') (\<lambda>r. Inr (Shifted r))))"

section \<open>Linear functional regression\<close>

text \<open>
  The values that \<open>LinearFunctionalRegression\<close> receives: the outcome is a functional
  object or something else, a predictor is a functional object or a Python list, an
  entry of \<open>beta_basis\<close> is a basis, something else, or (after a fit) the functional
  object that \<open>fit\<close> has stored there. The lists \<open>X\<close> and \<open>beta_basis\<close> are mutable and
  shared with the caller, so every function returns them as they are after the call.
\<close>

datatype outcome = YFData fdatabasis | YOther

datatype predictor = PList "real list" | PFData fdatabasis

datatype beta_entry = BBasis basis | BFitted fdatabasis | BOther

text \<open>
  \<open>FDataBasis(Constant(y.domain_range), np.asarray(x[j]).reshape((-1, 1)))\<close>: one
  sample per element of the list, over the constant basis.
\<close>

definition constant_fdata :: "real \<times> real \<Rightarrow> real list \<Rightarrow> error + fdatabasis" where
  "constant_fdata d l =
     bind_err (Basis_init ''Constant'' (Some d) 1)
       (\<lambda>b. FDataBasis b (Matrix \<lparr>ncols = 1, rows = map (\<lambda>v. [v]) l\<rparr>))"

text \<open>
  The loop of \<open>_argcheck\<close> that replaces in place every list of \<open>x\<close>: the list as it is
  left, and the functional objects or the error raised on the way.
\<close>

fun convert_lists ::
  "real \<times> real \<Rightarrow> predictor list \<Rightarrow> predictor list \<times> (error + fdatabasis list)" where
  "convert_lists d [] = ([], Inr [])"
| "convert_lists d (PFData f # xs) =
     (let (xs', r) = convert_lists d xs
      in (PFData f # xs', bind_err r (\<lambda>fs. Inr (f # fs))))"
| "convert_lists d (PList l # xs) =
     (case constant_fdata d l of
        Inl e \<Rightarrow> (PList l # xs, Inl e)
      | Inr f \<Rightarrow>
          (let (xs', r) = convert_lists d xs
           in (PFData f # xs', bind_err r (\<lambda>fs. Inr (f # fs)))))"

fun is_functional :: "predictor \<Rightarrow> bool" where
  "is_functional (PFData f) = True"
| "is_functional (PList l) = False"

fun is_Basis :: "beta_entry \<Rightarrow> bool" where
  "is_Basis (BBasis b) = True"
| "is_Basis _ = False"

text \<open>\<open>_argcheck\<close>: the list \<open>x\<close> after the call, and the result or the error.\<close>

definition argcheck ::
  "beta_entry list \<Rightarrow> outcome \<Rightarrow> predictor list \<Rightarrow> real list option
     \<Rightarrow> predictor list \<times> (error + fdatabasis \<times> fdatabasis list \<times> real list)" where
  "argcheck beta_basis y x weights =
     (case y of
        YOther \<Rightarrow> (x, Inl ValueError)
      | YFData yfd \<Rightarrow>
          if length beta_basis \<noteq> length x then (x, Inl ValueError)
          else
            (case convert_lists (fd_domain_range yfd) x of
               (x', Inl e) \<Rightarrow> (x', Inl e)
             | (x', Inr xfds) \<Rightarrow>
                 if list_ex (\<lambda>xfd. n_samples yfd \<noteq> n_samples xfd) xfds
                 then (x', Inl ValueError)
                 else if list_ex (\<lambda>b. \<not> is_Basis b) beta_basis then (x', Inl ValueError)
                 else
                   (let w = (case weights of
                               None \<Rightarrow> replicate (n_samples yfd) 1
                             | Some ws \<Rightarrow> ws)
                    in if length w \<noteq> n_samples yfd then (x', Inl ValueError)
                       else if list_ex (\<lambda>v. v < 0) w then (x', Inl ValueError)
                       else (x', Inr (yfd, xfds, w)))))"

text \<open>
  The last loop of \<open>fit\<close>: entry \<open>j\<close> of \<open>beta_basis\<close> becomes the functional object of
  its slice of the coefficients. The list as it is left, and the error if one is
  raised on the way.
\<close>

fun assign_betas :: "beta_entry list \<Rightarrow> real list \<Rightarrow> beta_entry list \<times> error option" where
  "assign_betas [] c = ([], None)"
| "assign_betas (BBasis b # bs) c =
     (case FDataBasis b (Flat (take (n_basis b) c)) of
        Inl e \<Rightarrow> (BBasis b # bs, Some e)
      | Inr f \<Rightarrow>
          (let (bs', e) = assign_betas bs (drop (n_basis b) c)
           in (BFitted f # bs', e)))"
| "assign_betas (b # bs) c = (b # bs, Some TypeError)"

text \<open>
  \<open>fit\<close>. The assembly and the solution of the normal equations (the matrices \<open>Cmat\<close>
  and \<open>Dmat\<close>, \<open>np.linalg.inv\<close>) are the parameter \<open>solve\<close>, which answers the flat
  vector \<open>betacoefs\<close> or the error raised; they change neither \<open>X\<close> nor \<open>beta_basis\<close>.
  The result is the two lists after the call and the error, if any.
\<close>

definition fit ::
  "(fdatabasis \<Rightarrow> fdatabasis list \<Rightarrow> real list \<Rightarrow> beta_entry list \<Rightarrow> error + real list)
     \<Rightarrow> beta_entry list \<Rightarrow> predictor list \<Rightarrow> outcome \<Rightarrow> real list option
     \<Rightarrow> (predictor list \<times> beta_entry list) \<times> error option" where
  "fit solve beta_basis X y sample_weight =
     (case argcheck beta_basis y X sample_weight of
        (X', Inl e) \<Rightarrow> ((X', beta_basis), Some e)
      | (X', Inr (yfd, xfds, w)) \<Rightarrow>
          (case solve yfd xfds w beta_basis of
             Inl e \<Rightarrow> ((X', beta_basis), Some e)
           | Inr betacoefs \<Rightarrow>
               (let (beta', e) = assign_betas beta_basis betacoefs
                in ((X', beta'), e))))"

section \<open>Least-squares projection\<close>

text \<open>
  Modelled from the spec: \<open>from_data\<close> hands its arguments to \<open>BasisSmoother\<close>, which is
  not in the source. By section 4.2 of the spec it projects every row \<open>y\<close> of sampled
  values onto the basis by ordinary least squares, \<open>argmin\<^sub>c \<parallel>y - \<Phi> c\<parallel>\<^sup>2\<close> with
  \<open>\<Phi>[t, k] = \<phi>\<^sub>k(sample_points[t])\<close>, and the default method solves the normal equations
  \<open>(\<Phi>\<^sup>T \<Phi>) c = \<Phi>\<^sup>T y\<close>. Here \<open>bv\<close> is the matrix of basis values, one row per basis
  function (\<open>\<Phi>\<^sup>T\<close>); \<open>fitted bv c\<close> is \<open>\<Phi> c\<close>.
\<close>

definition fitted :: "ndarray \<Rightarrow> real list \<Rightarrow> real list" where
  "fitted bv c = map (\<lambda>j. dot c (column bv j)) [0..<ncols bv]"

definition normal_equations :: "ndarray \<Rightarrow> real list \<Rightarrow> real list \<Rightarrow> bool" where
  "normal_equations bv y c =
     (length c = length (rows bv) \<and> length y = ncols bv \<and>
      list_all (\<lambda>r. dot r (fitted bv c) = dot r y) (rows bv))"

text \<open>
  Modelled from the spec: \<open>fd\<close> is a result of \<open>from_data(data, sample_points, basis)\<close>,
  an object over the basis with one coefficient row per row of the data, each solving
  the normal equations of its row.
\<close>

definition from_data_spec ::
  "externals \<Rightarrow> real list list \<Rightarrow> real list \<Rightarrow> basis \<Rightarrow> fdatabasis \<Rightarrow> bool" where
  "from_data_spec E data sample_points b fd =
     (basis fd = b \<and> invariant fd \<and>
      list_all2 (normal_equations (basis_evaluate E b sample_points 0))
        data (rows (coefficients fd)))"

text \<open>
  The basis is not degenerate on the points: no combination of the basis functions
  other than zero vanishes at all of them (the columns of \<open>\<Phi>\<close> are independent).
\<close>

definition nondegenerate :: "ndarray \<Rightarrow> bool" where
  "nondegenerate bv =
     (\<forall>v. length v = length (rows bv) \<longrightarrow>
          (\<forall>j<ncols bv. dot v (column bv j) = 0) \<longrightarrow>
          (\<forall>k<length v. v ! k = 0))"

section \<open>Concrete instances\<close>

text \<open>
  An instance of the external collaborators for the monomial family
  \<open>1, t, t\<^sup>2, \<dots>\<close>, used to run the model on concrete inputs: the evaluation rule and
  the inner-product matrix are the closed forms, the product basis is that of the
  polynomial product, the derivative is that of polynomials, \<open>from_data\<close> is the least-squares projection onto the constant
  function (the mean of the values; other sizes are not provided) and \<open>quad\<close> is the
  one-panel trapezoid rule.
\<close>

definition monomial_externals :: externals where
  "monomial_externals =
     \<lparr>basis_evaluate = (\<lambda>b pts d.
          \<lparr>ncols = length pts,
           rows = map (\<lambda>k. map (\<lambda>t. if k < d then 0
                                        else real (fact k div fact (k - d)) * t ^ (k - d)) pts)
                      [0..<n_basis b]\<rparr>),
      from_data = (\<lambda>data pts b.
          if n_basis b = 1 \<and> pts \<noteq> []
          then FDataBasis b (Matrix \<lparr>ncols = 1, rows = map (\<lambda>r. [sum_list r / real (length r)]) data\<rparr>)
          else Inl NotImplementedError),
      basis_of_product = (\<lambda>b c.
          if domain_range b = domain_range c
          then Inr \<lparr>family = ''Monomial'', domain_range = domain_range b,
                    n_basis = n_basis b + n_basis c - 1\<rparr>
          else Inl ValueError),
      quad = (\<lambda>f a b. bind_err (f a) (\<lambda>ya. bind_err (f b) (\<lambda>yb. Inr ((b - a) * (ya + yb) / 2)))),
      inner_matrix = (\<lambda>b c.
          \<lparr>ncols = n_basis c,
           rows = map (\<lambda>i. map (\<lambda>j. (snd (domain_range b) ^ (i + j + 1)
                                       - fst (domain_range b) ^ (i + j + 1)) / real (i + j + 1))
                                 [0..<n_basis c]) [0..<n_basis b]\<rparr>),
      basis_derivative = (\<lambda>b c order.
          bind_err (Basis_init ''Monomial'' (Some (domain_range b)) (n_basis b - order)) (\<lambda>b'.
          Inr (b', \<lparr>ncols = n_basis b - order,
                    rows = map (\<lambda>r. map (\<lambda>k. real (fact (k + order) div fact k) * r ! (k + order))
                                          [0..<n_basis b - order]) (rows c)\<rparr>)))\<rparr>"

definition Monomial :: "real \<times> real \<Rightarrow> nat \<Rightarrow> basis" where
  "Monomial d n = \<lparr>family = ''Monomial'', domain_range = d, n_basis = n\<rparr>"

definition fd_of :: "basis \<Rightarrow> real list list \<Rightarrow> fdatabasis" where
  "fd_of b rs = \<lparr>basis = b, coefficients = \<lparr>ncols = n_basis b, rows = rs\<rparr>\<rparr>"

text \<open>
  The functional object of \<open>registration.py\<close> built from a functional object of the
  model: the shifted evaluation is \<open>_evaluate_composed\<close> at the points
  \<open>tfine + delta[i]\<close> (no periodic wrap-around, as for polynomials), and \<open>shift\<close>
  restricts the domain for the policy \<open>slice\<close>.
\<close>

definition reg_fd_of :: "externals \<Rightarrow> fdatabasis \<Rightarrow> ext_arg \<Rightarrow> fdatabasis reg_fd" where
  "reg_fd_of E fd dflt =
     \<lparr>nsamples = n_samples fd,
      nbasis = fd_n_basis fd,
      reg_domain_range = fd_domain_range fd,
      default_extrapolation = dflt,
      reg_evaluate = (\<lambda>pts k. evaluate E fd pts k),
      evaluate_shifted = (\<lambda>pts dl ext.
         evaluate_composed E fd (map (\<lambda>d. map (\<lambda>t. t + d) pts) dl) 0),
      reg_shift = (\<lambda>dl ext pts. shift E fd (ShiftVector dl) (ext = ExtSlice) (Some pts))\<rparr>"

text \<open>
  Two straight lines \<open>t\<close> and \<open>t + 1/50\<close> on \<open>[0, 1]\<close>, a mesh of five points, and the
  parameters and the first state of the loop that \<open>shift_registration\<close> builds for
  them with the policy \<open>slice\<close>, \<open>maxiter=5\<close> and \<open>alpha=1\<close>.
\<close>

definition two_lines :: fdatabasis where
  "two_lines = fd_of (Monomial (0, 1) 2) [[0, 1], [1/50, 1]]"

definition two_lines_reg :: "fdatabasis reg_fd" where
  "two_lines_reg = reg_fd_of monomial_externals two_lines ExtSlice"

definition quarter_mesh :: "real list" where
  "quarter_mesh = [0, 1/4, 1/2, 3/4, 1]"

definition slice_params :: "real \<Rightarrow> reg_params" where
  "slice_params tol' =
     \<lparr>maxiter = 5, tol = tol', alpha = 1, periodic = False, periodic_ext = False,
      D1x_tmp = [[1, 1, 1, 1, 1], [1, 1, 1, 1, 1]], tfine_tmp = quarter_mesh\<rparr>"


definition second_state :: reg_state where
  "second_state =
     \<lparr>delta = [1/100, - (1/100)], max_diff = 1/100, iter = 1, tfine = quarter_mesh,
      D1x = [[1, 1, 1, 1, 1], [1, 1, 1, 1, 1]], d2_regsse = [1, 1]\<rparr>"

definition third_state :: reg_state where
  "third_state =
     \<lparr>delta = [1/100, - (1/100)], max_diff = 0, iter = 2, tfine = [1/4, 1/2, 3/4],
      D1x = [[1, 1, 1], [1, 1, 1]], d2_regsse = [1/2, 1/2]\<rparr>"

section \<open>Theorems\<close>

lemmas demo_defs = monomial_externals_def Monomial_def fd_of_def

lemmas ip_defs = inner_product_def same_domain_def fd_domain_range_def arg_domain_range_def
  n_samples_def shape0_def fd_n_basis_def matmul_def transpose_nd_def column_def dot_def

text \<open>
  C10: \<open>inner_product\<close> raises \<open>ValueError\<close> whenever the two domain ranges differ,
  whatever the external collaborators would do and whatever the weights are; so it
  returns a matrix only for operands on the same domain range.
\<close>

theorem inner_product_domain_guard:
  "(fd_domain_range x \<noteq> arg_domain_range y \<longrightarrow> inner_product E x y w = Inl ValueError) \<and>
   (\<forall>m. inner_product E x y w = Inr m \<longrightarrow> fd_domain_range x = arg_domain_range y)"
  by (auto simp: inner_product_def same_domain_def)

theorem inner_product_domain_guard_witness:
  "fd_domain_range (fd_of (Monomial (0, 1) 1) [[1], [2]])
     \<noteq> arg_domain_range (IPFData (fd_of (Monomial (0, 2) 1) [[3], [4]])) \<and>
   inner_product monomial_externals (fd_of (Monomial (0, 1) 1) [[1], [2]])
     (IPFData (fd_of (Monomial (0, 2) 1) [[3], [4]])) None = Inl ValueError \<and>
   inner_product monomial_externals (fd_of (Monomial (0, 1) 1) [[1], [2]])
     (IPFData (fd_of (Monomial (0, 1) 1) [[3], [4]])) None
     = Inr \<lparr>ncols = 2, rows = [[3, 4], [6, 8]]\<rparr> \<and>
   fd_domain_range (fd_of (Monomial (0, 1) 1) [[1], [2]])
     = arg_domain_range (IPFData (fd_of (Monomial (0, 1) 1) [[3], [4]]))"
proof -
  have d: "fd_domain_range (fd_of (Monomial (0, 1) 1) [[1], [2]])
     \<noteq> arg_domain_range (IPFData (fd_of (Monomial (0, 2) 1) [[3], [4]]))"
    by (simp add: demo_defs fd_domain_range_def arg_domain_range_def)
  have r: "inner_product monomial_externals (fd_of (Monomial (0, 1) 1) [[1], [2]])
     (IPFData (fd_of (Monomial (0, 1) 1) [[3], [4]])) None
     = Inr \<lparr>ncols = 2, rows = [[3, 4], [6, 8]]\<rparr>"
    by (simp add: demo_defs ip_defs)
  from d r inner_product_domain_guard
    [of "fd_of (Monomial (0, 1) 1) [[1], [2]]"
        "IPFData (fd_of (Monomial (0, 2) 1) [[3], [4]])" monomial_externals None]
    inner_product_domain_guard
    [of "fd_of (Monomial (0, 1) 1) [[1], [2]]"
        "IPFData (fd_of (Monomial (0, 1) 1) [[3], [4]])" monomial_externals None]
  show ?thesis by blast
qed












lemma times_constant_example:
  "times_fd monomial_externals (fd_of (Monomial (0, 1) 1) [[2]])
     (TFData (fd_of (Monomial (0, 1) 1) [[3]])) = Inr (fd_of (Monomial (0, 1) 1) [[6]])"
  by code_simp



lemma FDataBasis_invariant: "FDataBasis b c = Inr fd \<Longrightarrow> invariant fd"
  by (auto simp: FDataBasis_def invariant_def Let_def split: if_splits)

lemma copy_invariant: "copy fd b c = Inr fd' \<Longrightarrow> invariant fd'"
  unfolding copy_def by (rule FDataBasis_invariant)

lemma getitem_invariant: "getitem fd i = Inr fd' \<Longrightarrow> invariant fd'"
  unfolding getitem_def by (rule copy_invariant)

lemma to_basis_invariant: "to_basis b = Inr fd' \<Longrightarrow> invariant fd'"
  unfolding to_basis_def by (rule FDataBasis_invariant)

lemma derivative_invariant: "derivative E fd k = Inr fd' \<Longrightarrow> invariant fd'"
  by (auto simp: derivative_def bind_err_Inr split: if_splits
      dest: copy_invariant FDataBasis_invariant)

lemma mean_invariant: "mean fd w = Inr fd' \<Longrightarrow> invariant fd'"
  by (auto simp: mean_def Let_def split: option.splits if_splits dest: copy_invariant)

lemma concatenate_invariant: "concatenate fd others = Inr fd' \<Longrightarrow> invariant fd'"
  by (auto simp: concatenate_def split: if_splits dest: copy_invariant)

lemma add_sub_invariant: "add_sub f fd other = Inr fd' \<Longrightarrow> invariant fd'"
  by (auto simp: add_sub_def bind_err_Inr split: arith_arg.splits if_splits dest: copy_invariant)

lemma mul_invariant: "mul fd other = Inr fd' \<Longrightarrow> invariant fd'"
  by (auto simp: mul_def split: arith_arg.splits dest: copy_invariant)

lemma times_invariant:
  assumes "\<And>d p b r. from_data E d p b = Inr r \<Longrightarrow> invariant r"
    and "times_fd E fd other = Inr fd'"
  shows "invariant fd'"
  using assms
  by (cases other) (auto simp: times_fd_def bind_err_Inr Let_def dest: copy_invariant)

lemma shift_invariant:
  assumes "\<And>d p b r. from_data E d p b = Inr r \<Longrightarrow> invariant r"
    and "shift E fd s rd pts = Inr fd'"
  shows "invariant fd'"
  using assms by (auto simp: shift_def bind_err_Inr)

lemma shift_length_guard:
  "length sv \<noteq> n_samples fd \<Longrightarrow> shift E fd (ShiftVector sv) rd pts = Inl ValueError"
  by (simp add: shift_def shift_discretize_def Let_def split: prod.splits)

text \<open>
  C8: the constructor raises \<open>ValueError\<close> whenever the coefficients do not have
  \<open>n_basis\<close> columns, so every object it returns satisfies the invariant; every
  operation of the class that builds a new object (\<open>copy\<close>, \<open>__getitem__\<close>, \<open>to_basis\<close>,
  \<open>derivative\<close>, \<open>mean\<close>, \<open>concatenate\<close>, \<open>+\<close>, \<open>-\<close>, \<open>*\<close>, \<open>times\<close> and \<open>shift\<close>) returns
  only objects that satisfy it, the two that go through \<open>from_data\<close> provided
  \<open>from_data\<close> does; and \<open>shift\<close> with a vector whose length is not \<open>n_samples\<close> raises
  \<open>ValueError\<close>.
\<close>

theorem coefficient_columns_invariant:
  "(shape1 (atleast_2d c) \<noteq> n_basis b \<longrightarrow> FDataBasis b c = Inl ValueError) \<and>
   (\<forall>fd'. FDataBasis b c = Inr fd' \<longrightarrow> invariant fd') \<and>
   (\<forall>fd'. copy fd b' c' = Inr fd' \<longrightarrow> invariant fd') \<and>
   (\<forall>fd'. getitem fd i = Inr fd' \<longrightarrow> invariant fd') \<and>
   (\<forall>fd'. to_basis b = Inr fd' \<longrightarrow> invariant fd') \<and>
   (\<forall>fd'. derivative E fd k = Inr fd' \<longrightarrow> invariant fd') \<and>
   (\<forall>fd'. mean fd w = Inr fd' \<longrightarrow> invariant fd') \<and>
   (\<forall>fd'. concatenate fd others = Inr fd' \<longrightarrow> invariant fd') \<and>
   (\<forall>fd'. add fd a = Inr fd' \<longrightarrow> invariant fd') \<and>
   (\<forall>fd'. sub fd a = Inr fd' \<longrightarrow> invariant fd') \<and>
   (\<forall>fd'. mul fd a = Inr fd' \<longrightarrow> invariant fd') \<and>
   ((\<forall>d p b r. from_data E d p b = Inr r \<longrightarrow> invariant r) \<longrightarrow>
      (\<forall>fd'. times_fd E fd t = Inr fd' \<longrightarrow> invariant fd') \<and>
      (\<forall>fd'. shift E fd s rd pts = Inr fd' \<longrightarrow> invariant fd')) \<and>
   (length sv \<noteq> n_samples fd \<longrightarrow> shift E fd (ShiftVector sv) rd pts = Inl ValueError)"
proof -
  have guard: "shape1 (atleast_2d c) \<noteq> n_basis b \<longrightarrow> FDataBasis b c = Inl ValueError"
    by (simp add: FDataBasis_def Let_def)
  have ext: "(\<forall>d p b r. from_data E d p b = Inr r \<longrightarrow> invariant r) \<longrightarrow>
      (\<forall>fd'. times_fd E fd t = Inr fd' \<longrightarrow> invariant fd') \<and>
      (\<forall>fd'. shift E fd s rd pts = Inr fd' \<longrightarrow> invariant fd')"
  proof (intro impI conjI allI)
    fix fd' assume h: "\<forall>d p b r. from_data E d p b = Inr r \<longrightarrow> invariant r"
      and t: "times_fd E fd t = Inr fd'"
    from h have "\<And>d p b r. from_data E d p b = Inr r \<Longrightarrow> invariant r" by blast
    then show "invariant fd'" using t by (rule times_invariant)
  next
    fix fd' assume h: "\<forall>d p b r. from_data E d p b = Inr r \<longrightarrow> invariant r"
      and t: "shift E fd s rd pts = Inr fd'"
    from h have "\<And>d p b r. from_data E d p b = Inr r \<Longrightarrow> invariant r" by blast
    then show "invariant fd'" using t by (rule shift_invariant)
  qed
  have add_ok: "\<forall>fd'. add fd a = Inr fd' \<longrightarrow> invariant fd'"
    unfolding add_def by (blast dest: add_sub_invariant)
  have sub_ok: "\<forall>fd'. sub fd a = Inr fd' \<longrightarrow> invariant fd'"
    unfolding sub_def by (blast dest: add_sub_invariant)
  have c2: "\<forall>fd'. FDataBasis b c = Inr fd' \<longrightarrow> invariant fd'"
    by (blast dest: FDataBasis_invariant)
  have c3: "\<forall>fd'. copy fd b' c' = Inr fd' \<longrightarrow> invariant fd'"
    by (blast dest: copy_invariant)
  have c4: "\<forall>fd'. getitem fd i = Inr fd' \<longrightarrow> invariant fd'"
    by (blast dest: getitem_invariant)
  have c5: "\<forall>fd'. to_basis b = Inr fd' \<longrightarrow> invariant fd'"
    by (blast dest: to_basis_invariant)
  have c6: "\<forall>fd'. derivative E fd k = Inr fd' \<longrightarrow> invariant fd'"
    by (blast dest: derivative_invariant)
  have c7: "\<forall>fd'. mean fd w = Inr fd' \<longrightarrow> invariant fd'"
    by (blast dest: mean_invariant)
  have c8: "\<forall>fd'. concatenate fd others = Inr fd' \<longrightarrow> invariant fd'"
    by (blast dest: concatenate_invariant)
  have c9: "\<forall>fd'. mul fd a = Inr fd' \<longrightarrow> invariant fd'"
    by (blast dest: mul_invariant)
  have c10: "length sv \<noteq> n_samples fd \<longrightarrow>
      shift E fd (ShiftVector sv) rd pts = Inl ValueError"
    by (simp add: shift_length_guard)
  show ?thesis
    by (intro conjI)
       (fact guard, fact c2, fact c3, fact c4, fact c5, fact c6, fact c7, fact c8,
        fact add_ok, fact sub_ok, fact c9, fact ext, fact c10)
qed


lemma monomial_from_data_invariant:
  "from_data monomial_externals d p b = Inr r \<Longrightarrow> invariant r"
  by (auto simp: monomial_externals_def split: if_splits dest: FDataBasis_invariant)

theorem coefficient_columns_invariant_witness:
  "shape1 (atleast_2d (Flat [1, 2, 3])) \<noteq> n_basis (Monomial (0, 1) 2) \<and>
   FDataBasis (Monomial (0, 1) 2) (Flat [1, 2, 3]) = Inl ValueError \<and>
   FDataBasis (Monomial (0, 1) 2) (Flat [1, 2]) = Inr (fd_of (Monomial (0, 1) 2) [[1, 2]]) \<and>
   invariant (fd_of (Monomial (0, 1) 2) [[1, 2]]) \<and>
   mean (fd_of (Monomial (0, 1) 2) [[1, 2], [3, 4]]) None
     = Inr (fd_of (Monomial (0, 1) 2) [[2, 3]]) \<and>
   invariant (fd_of (Monomial (0, 1) 2) [[2, 3]]) \<and>
   times_fd monomial_externals (fd_of (Monomial (0, 1) 1) [[2]])
     (TFData (fd_of (Monomial (0, 1) 1) [[3]])) = Inr (fd_of (Monomial (0, 1) 1) [[6]]) \<and>
   invariant (fd_of (Monomial (0, 1) 1) [[6]]) \<and>
   length [1, 2, 3 :: real] \<noteq> n_samples (fd_of (Monomial (0, 1) 2) [[1, 2], [3, 4]]) \<and>
   shift monomial_externals (fd_of (Monomial (0, 1) 2) [[1, 2], [3, 4]])
     (ShiftVector [1, 2, 3]) False None = Inl ValueError"
proof -
  let ?M = "Monomial (0, 1) 2"
  let ?F2 = "fd_of ?M [[1, 2], [3, 4]]"
  have s: "shape1 (atleast_2d (Flat [1, 2, 3])) \<noteq> n_basis ?M"
    by (simp add: demo_defs shape1_def)
  have f: "FDataBasis ?M (Flat [1, 2]) = Inr (fd_of ?M [[1, 2]])"
    by (simp add: demo_defs FDataBasis_def shape1_def)
  have m: "mean ?F2 None = Inr (fd_of ?M [[2, 3]])"
    by code_simp
  have e: "\<forall>d p b r. from_data monomial_externals d p b = Inr r \<longrightarrow> invariant r"
    by (blast dest: monomial_from_data_invariant)
  have l: "length [1, 2, 3 :: real] \<noteq> n_samples ?F2"
    by (simp add: demo_defs n_samples_def shape0_def)
  note t = times_constant_example
  note T = coefficient_columns_invariant
  note c2 = conjunct2
  have 1: "FDataBasis ?M (Flat [1, 2, 3]) = Inl ValueError"
    using s T [where b = ?M and c = "Flat [1, 2, 3]", THEN conjunct1] by blast
  have 2: "invariant (fd_of ?M [[1, 2]])"
    using f T [where b = ?M and c = "Flat [1, 2]", THEN c2, THEN conjunct1] by blast
  have 3: "invariant (fd_of ?M [[2, 3]])"
    using m T [where fd = ?F2 and w = None, THEN c2, THEN c2, THEN c2, THEN c2, THEN c2,
        THEN c2, THEN conjunct1] by blast
  have 4: "invariant (fd_of (Monomial (0, 1) 1) [[6]])"
    using e t T [where E = monomial_externals and fd = "fd_of (Monomial (0, 1) 1) [[2]]"
        and t = "TFData (fd_of (Monomial (0, 1) 1) [[3]])", THEN c2, THEN c2, THEN c2, THEN c2,
        THEN c2, THEN c2, THEN c2, THEN c2, THEN c2, THEN c2, THEN c2, THEN conjunct1]
    by blast
  have 5: "shift monomial_externals ?F2 (ShiftVector [1, 2, 3]) False None = Inl ValueError"
    using l T [where E = monomial_externals and fd = ?F2 and sv = "[1, 2, 3]" and rd = False
        and pts = None, THEN c2, THEN c2, THEN c2, THEN c2, THEN c2, THEN c2, THEN c2, THEN c2,
        THEN c2, THEN c2, THEN c2, THEN c2] by blast
  from s 1 f 2 m 3 t 4 l 5 show ?thesis by (intro conjI)
qed

lemma select_map_filter: "select (map p xs) xs = filter p xs"
  by (induction xs) (auto simp: select_def)

lemma Basis_init_domain:
  "Basis_init fam (Some d) n = Inr b \<Longrightarrow> domain_range b = d \<and> fst d < snd d"
  by (auto simp: Basis_init_def split: if_splits prod.splits)

lemma shift_discretize_restrict:
  assumes "shift_discretize E fd (ShiftVector sv) True pts = Inr (dm, g, b)"
  defines "lo \<equiv> fst (fd_domain_range fd) - min (Min (set sv)) 0"
    and "hi \<equiv> snd (fd_domain_range fd) - max (Max (set sv)) 0"
    and "mesh \<equiv> (case pts of
                    None \<Rightarrow> linspace (fst (fd_domain_range fd)) (snd (fd_domain_range fd))
                             (max (fd_n_basis fd * 10 + 1) 201)
                  | Some p \<Rightarrow> p)"
  shows "g = filter (\<lambda>t. lo \<le> t \<and> t \<le> hi) mesh \<and> domain_range b = (lo, hi) \<and>
         evaluate_composed E fd (map (\<lambda>s. map (\<lambda>t. t + s) g) sv) 0 = Inr dm"
proof -
  obtain d0 d1 where d: "fd_domain_range fd = (d0, d1)" by (cases "fd_domain_range fd")
  from assms(1) show ?thesis
    unfolding shift_discretize_def lo_def hi_def mesh_def
    by (auto simp: d bind_err_Inr Let_def rescale_def N_POINTS_COARSE_MESH_def
        split: if_splits option.splits dest!: Basis_init_domain)
qed

lemma newton_step_mesh:
  assumes "\<not> periodic P" and "newton_step fd P st = Inr st'"
  shows "tfine st' =
           filter (\<lambda>t. fst (reg_domain_range fd) - min (Min (set (delta st))) 0 \<le> t \<and>
                       t \<le> snd (reg_domain_range fd) - max (Max (set (delta st))) 0)
                  (tfine_tmp P)"
proof -
  from assms(2) obtain tf D d2 where m: "loop_mesh fd P st = Inr (tf, D, d2)"
    and u: "newton_update fd P st tf D d2 = Inr st'"
    by (auto simp: newton_step_def bind_err_Inr)
  from u have "tfine st' = tf"
    by (auto simp: newton_update_def bind_err_Inr Let_def split: if_splits)
  with m assms(1) show ?thesis
    by (auto simp: loop_mesh_def bind_err_Inr Let_def domain_mask_def select_map_filter
        split: if_splits)
qed

text \<open>
  C3: with a vector of shifts \<open>delta\<close> and the domain range \<open>(a, b)\<close>, both \<open>shift\<close> with
  \<open>restrict_domain=True\<close> and every pass of the non-periodic loop of
  \<open>shift_registration\<close> keep exactly the points \<open>t\<close> of the mesh with
  \<open>a - min (min delta) 0 \<le> t \<le> b - max (max delta) 0\<close>; in \<open>shift\<close> that interval is also the
  domain range of the rescaled basis, and the data are the curves evaluated at the kept
  points plus their shifts.
\<close>

theorem working_interval:
  "(shift_discretize E fd (ShiftVector sv) True pts = Inr (dm, g, b) \<longrightarrow>
      g = filter (\<lambda>t. fst (fd_domain_range fd) - min (Min (set sv)) 0 \<le> t \<and>
                      t \<le> snd (fd_domain_range fd) - max (Max (set sv)) 0)
                 (case pts of
                    None \<Rightarrow> linspace (fst (fd_domain_range fd)) (snd (fd_domain_range fd))
                             (max (fd_n_basis fd * 10 + 1) 201)
                  | Some p \<Rightarrow> p) \<and>
      domain_range b = (fst (fd_domain_range fd) - min (Min (set sv)) 0,
                        snd (fd_domain_range fd) - max (Max (set sv)) 0) \<and>
      evaluate_composed E fd (map (\<lambda>s. map (\<lambda>t. t + s) g) sv) 0 = Inr dm) \<and>
   (\<not> periodic P \<longrightarrow> newton_step rfd P st = Inr st' \<longrightarrow>
      tfine st' =
        filter (\<lambda>t. fst (reg_domain_range rfd) - min (Min (set (delta st))) 0 \<le> t \<and>
                    t \<le> snd (reg_domain_range rfd) - max (Max (set (delta st))) 0)
               (tfine_tmp P))"
  using shift_discretize_restrict [of E fd sv pts dm g b] newton_step_mesh [of P rfd st st']
  by blast



lemma two_lines_second_step:
  "newton_step two_lines_reg (slice_params (1/1000)) second_state = Inr third_state"
  by code_simp

lemma shift_restrict_example:
  "shift_discretize monomial_externals (fd_of (Monomial (0, 1) 2) [[0, 1], [0, 1]])
     (ShiftVector [1/4, - (1/4)]) True (Some quarter_mesh)
   = Inr ([[1/2, 3/4, 1], [0, 1/4, 1/2]], [1/4, 1/2, 3/4], Monomial (1/4, 3/4) 2)"
  by code_simp

theorem working_interval_witness:
  "shift_discretize monomial_externals (fd_of (Monomial (0, 1) 2) [[0, 1], [0, 1]])
     (ShiftVector [1/4, - (1/4)]) True (Some quarter_mesh)
   = Inr ([[1/2, 3/4, 1], [0, 1/4, 1/2]], [1/4, 1/2, 3/4], Monomial (1/4, 3/4) 2) \<and>
   [1/4, 1/2, 3/4] = filter (\<lambda>t. 0 - min (Min (set [1/4, - (1/4)])) 0 \<le> t \<and>
                               t \<le> 1 - max (Max (set [1/4, - (1/4)])) 0) quarter_mesh \<and>
   domain_range (Monomial (1/4, 3/4) 2)
     = (0 - min (Min (set [1/4, - (1/4)])) 0, 1 - max (Max (set [1/4, - (1/4)])) 0) \<and>
   \<not> periodic (slice_params (1/1000)) \<and>
   newton_step two_lines_reg (slice_params (1/1000)) second_state = Inr third_state \<and>
   tfine third_state
     = filter (\<lambda>t. 0 - min (Min (set [1/100, - (1/100)])) 0 \<le> t \<and>
                   t \<le> 1 - max (Max (set [1/100, - (1/100)])) 0) quarter_mesh"
proof -
  let ?F = "fd_of (Monomial (0, 1) 2) [[0, 1], [0, 1]]"
  have d: "fd_domain_range ?F = (0, 1)" "reg_domain_range two_lines_reg = (0, 1)"
    "delta second_state = [1/100, - (1/100)]" "tfine_tmp (slice_params (1/1000)) = quarter_mesh"
    by (simp_all add: demo_defs fd_domain_range_def two_lines_reg_def reg_fd_of_def
        two_lines_def second_state_def slice_params_def)
  have p: "\<not> periodic (slice_params (1/1000))"
    by (simp add: slice_params_def)
  note T = working_interval
    [where E = monomial_externals and fd = ?F and sv = "[1/4, - (1/4)]"
       and pts = "Some quarter_mesh" and dm = "[[1/2, 3/4, 1], [0, 1/4, 1/2]]"
       and g = "[1/4, 1/2, 3/4]" and b = "Monomial (1/4, 3/4) 2"
       and P = "slice_params (1/1000)" and rfd = two_lines_reg and st = second_state
       and st' = third_state]
  from T [THEN conjunct1] shift_restrict_example d
  have 1: "[1/4, 1/2, 3/4] = filter (\<lambda>t. 0 - min (Min (set [1/4, - (1/4)])) 0 \<le> t \<and>
                               t \<le> 1 - max (Max (set [1/4, - (1/4)])) 0) quarter_mesh"
    and 2: "domain_range (Monomial (1/4, 3/4) 2)
     = (0 - min (Min (set [1/4, - (1/4)])) 0, 1 - max (Max (set [1/4, - (1/4)])) 0)"
    by simp_all
  from T [THEN conjunct2] p two_lines_second_step d
  have 3: "tfine third_state
     = filter (\<lambda>t. 0 - min (Min (set [1/100, - (1/100)])) 0 \<le> t \<and>
                   t \<le> 1 - max (Max (set [1/100, - (1/100)])) 0) quarter_mesh"
    by simp
  from shift_restrict_example 1 2 p two_lines_second_step 3 show ?thesis by (intro conjI)
qed

lemma sequence_err_length: "sequence_err xs = Inr ys \<Longrightarrow> length ys = length xs"
  by (induction xs arbitrary: ys) (auto simp: bind_err_Inr)

lemma trapz_rows_length: "trapz_rows ys x = Inr r \<Longrightarrow> length r = length ys"
  by (auto simp: trapz_rows_def dest: sequence_err_length)
















text \<open>
  C7: \<open>landmark_shift\<close> raises \<open>ValueError\<close> when the number of landmarks is not the
  number of samples. With one landmark per sample (and at least one sample, so that
  the extremes exist) and \<open>location='minimize'\<close>, the shifts are
  \<open>landmark\<^sub>i - (max landmarks + min landmarks) / 2\<close>: they are returned when
  \<open>shifts_array\<close> is set and handed to \<open>fd.shift\<close> otherwise.
\<close>

theorem landmark_shift_minimize:
  "(length landmarks \<noteq> nsamples fd \<longrightarrow>
      landmark_shift fd landmarks loc ext tf sa = Inl ValueError) \<and>
   (length landmarks = nsamples fd \<longrightarrow> landmarks \<noteq> [] \<longrightarrow>
      landmark_shift fd landmarks Minimize ext tf True
        = Inr (Shifts (map (\<lambda>l. l - (Max (set landmarks) + Min (set landmarks)) / 2) landmarks)) \<and>
      landmark_shift fd landmarks Minimize ext tf False
        = bind_err (reg_shift fd
                      (map (\<lambda>l. l - (Max (set landmarks) + Min (set landmarks)) / 2) landmarks)
                      ext tf)
            (\<lambda>r. Inr (Shifted r)))"
  by (simp add: landmark_shift_def)

theorem landmark_shift_minimize_witness:
  "length [1/5, 4/5 :: real] = nsamples two_lines_reg \<and>
   landmark_shift two_lines_reg [1/5, 4/5] Minimize ExtDefault [] True
     = Inr (Shifts [- (3/10), 3/10]) \<and>
   (Max (set [1/5, 4/5 :: real]) + Min (set [1/5, 4/5])) / 2 = 1/2 \<and>
   length [1/5, 1/2, 4/5 :: real] \<noteq> nsamples two_lines_reg \<and>
   landmark_shift two_lines_reg [1/5, 1/2, 4/5] Minimize ExtDefault [] True = Inl ValueError"
proof -
  have n: "length [1/5, 4/5 :: real] = nsamples two_lines_reg"
    "length [1/5, 1/2, 4/5 :: real] \<noteq> nsamples two_lines_reg"
    by (simp_all add: two_lines_reg_def reg_fd_of_def two_lines_def demo_defs n_samples_def
        shape0_def)
  have m: "(Max (set [1/5, 4/5 :: real]) + Min (set [1/5, 4/5])) / 2 = 1/2"
    by simp
  note T = landmark_shift_minimize [where fd = two_lines_reg and ext = ExtDefault and tf = "[]"]
  from T [where landmarks = "[1/5, 4/5]", THEN conjunct2] n(1)
  have "landmark_shift two_lines_reg [1/5, 4/5] Minimize ExtDefault [] True
     = Inr (Shifts (map (\<lambda>l. l - (Max (set [1/5, 4/5]) + Min (set [1/5, 4/5])) / 2) [1/5, 4/5]))"
    by simp
  then have a: "landmark_shift two_lines_reg [1/5, 4/5] Minimize ExtDefault [] True
     = Inr (Shifts [- (3/10), 3/10])"
    by (simp only: m) simp
  from T [where landmarks = "[1/5, 1/2, 4/5]" and loc = Minimize and sa = True, THEN conjunct1]
    n(2)
  have b: "landmark_shift two_lines_reg [1/5, 1/2, 4/5] Minimize ExtDefault [] True
     = Inl ValueError"
    by blast
  from n(1) a m n(2) b show ?thesis by (intro conjI)
qed

text \<open>
  The two branches of \<open>shift\<close> in general. A scalar \<open>s\<close> attaches the values of the curves
  at the points \<open>t\<close> to the points \<open>t + s\<close> and moves the domain to \<open>(a + s, b + s)\<close>; a vector
  attaches the values at \<open>t + s\<^sub>i\<close> to the points \<open>t\<close> and keeps the domain.
\<close>

lemma shift_scalar_branch:
  assumes "shift_discretize E fd (ShiftScalar s) rd (Some pts) = Inr (d, g, b)"
  shows "evaluate E fd pts 0 = Inr d \<and> g = map (\<lambda>t. t + s) pts \<and>
         domain_range b = (fst (fd_domain_range fd) + s, snd (fd_domain_range fd) + s)"
proof -
  obtain d0 d1 where dr: "fd_domain_range fd = (d0, d1)" by (cases "fd_domain_range fd")
  from assms show ?thesis
    unfolding shift_discretize_def
    by (auto simp: dr bind_err_Inr rescale_def dest!: Basis_init_domain)
qed

lemma shift_vector_branch:
  assumes "shift_discretize E fd (ShiftVector sv) False (Some pts) = Inr (d, g, b)"
  shows "evaluate_composed E fd (map (\<lambda>s. map (\<lambda>t. t + s) pts) sv) 0 = Inr d \<and> g = pts \<and>
         domain_range b = fd_domain_range fd"
proof -
  obtain d0 d1 where dr: "fd_domain_range fd = (d0, d1)" by (cases "fd_domain_range fd")
  from assms show ?thesis
    unfolding shift_discretize_def
    by (auto simp: dr bind_err_Inr rescale_def split: if_splits dest!: Basis_init_domain)
qed

text \<open>
  C4: the claim is that a scalar shift \<open>s\<close> and the constant vector \<open>[s, \<dots>, s]\<close> give the
  same translated curves. For the curve \<open>f t = t\<close> on \<open>[0, 1]\<close>, the shift 1 and the
  points \<open>0, 1/2, 1\<close>, the scalar branch hands to \<open>from_data\<close> the values \<open>0, 1/2, 1\<close> at
  the points \<open>1, 3/2, 2\<close> on the domain \<open>(1, 2)\<close>, the curve \<open>u \<mapsto> f (u - 1)\<close>; the vector
  branch hands the values \<open>1, 3/2, 2\<close> at the points \<open>0, 1/2, 1\<close> on the domain \<open>(0, 1)\<close>,
  the curve \<open>t \<mapsto> f (t + 1)\<close>. The two branches translate in opposite directions.
\<close>

theorem shift_scalar_vector_differ:
  "shift_discretize monomial_externals (fd_of (Monomial (0, 1) 2) [[0, 1]])
     (ShiftScalar 1) False (Some [0, 1/2, 1])
     = Inr ([[0, 1/2, 1]], [1, 3/2, 2], Monomial (1, 2) 2) \<and>
   shift_discretize monomial_externals (fd_of (Monomial (0, 1) 2) [[0, 1]])
     (ShiftVector [1]) False (Some [0, 1/2, 1])
     = Inr ([[1, 3/2, 2]], [0, 1/2, 1], Monomial (0, 1) 2)"
  by code_simp

lemma convert_lists_length: "length (fst (convert_lists d xs)) = length xs"
  by (induction d xs rule: convert_lists.induct) (auto split: sum.splits prod.splits)

lemma convert_lists_entries:
  assumes "j < length xs"
  shows "fst (convert_lists d xs) ! j = xs ! j \<or>
         (\<exists>l f. xs ! j = PList l \<and> fst (convert_lists d xs) ! j = PFData f \<and>
                constant_fdata d l = Inr f)"
  using assms
proof (induction xs arbitrary: j)
  case Nil
  then show ?case by simp
next
  case (Cons x xs)
  obtain xs' r where c: "convert_lists d xs = (xs', r)" by (cases "convert_lists d xs")
  show ?case
  proof (cases j)
    case 0
    then show ?thesis
      by (cases x) (auto simp: c split: sum.splits)
  next
    case (Suc i)
    with Cons.prems have "i < length xs" by simp
    from Cons.IH [OF this] have
      "xs' ! i = xs ! i \<or>
         (\<exists>l f. xs ! i = PList l \<and> xs' ! i = PFData f \<and> constant_fdata d l = Inr f)"
      by (simp add: c)
    with Suc show ?thesis
      by (cases x) (auto simp: c split: sum.splits)
  qed
qed

lemma convert_lists_functional:
  "list_all is_functional xs \<Longrightarrow> fst (convert_lists d xs) = xs"
  by (induction d xs rule: convert_lists.induct) (auto split: prod.splits)

lemma argcheck_list:
  "fst (argcheck B y X w) = X \<or>
   (\<exists>yfd. y = YFData yfd \<and> length B = length X \<and>
          fst (argcheck B y X w) = fst (convert_lists (fd_domain_range yfd) X))"
proof (cases y)
  case YOther
  then show ?thesis by (simp add: argcheck_def)
next
  case (YFData yfd)
  obtain x' r where c: "convert_lists (fd_domain_range yfd) X = (x', r)"
    by (cases "convert_lists (fd_domain_range yfd) X")
  show ?thesis
  proof (cases "length B = length X")
    case False
    with YFData show ?thesis by (simp add: argcheck_def)
  next
    case True
    with YFData c have "fst (argcheck B y X w) = x'"
      by (cases r) (simp_all add: argcheck_def Let_def)
    with YFData True c show ?thesis by simp
  qed
qed

lemma argcheck_early:
  "y = YOther \<or> length B \<noteq> length X \<Longrightarrow> fst (argcheck B y X w) = X"
  by (cases y) (auto simp: argcheck_def)

lemma fit_argcheck_error:
  "snd (argcheck B y X w) = Inl e \<Longrightarrow> fit S B X y w = ((fst (argcheck B y X w), B), Some e)"
  by (cases "argcheck B y X w") (auto simp: fit_def)

text \<open>
  C9 (amended): when \<open>_argcheck\<close> raises, \<open>fit\<close> raises the same error and leaves
  \<open>beta_basis\<close> as it was. The list \<open>X\<close> keeps its length, and each entry is either as it
  was or, where it was a Python list, the functional object over the constant basis
  that \<open>_argcheck\<close> has put in its place; \<open>X\<close> is exactly as it was when it holds no
  Python list, or when the error is that of the outcome or of the number of
  predictors.
\<close>

theorem fit_validation_error:
  "snd (argcheck B y X w) = Inl e \<longrightarrow>
     (\<exists>X'. fit S B X y w = ((X', B), Some e) \<and>
           length X' = length X \<and>
           (\<forall>j<length X.
              X' ! j = X ! j \<or>
              (\<exists>yfd l f. y = YFData yfd \<and> X ! j = PList l \<and> X' ! j = PFData f \<and>
                         constant_fdata (fd_domain_range yfd) l = Inr f)) \<and>
           (list_all is_functional X \<longrightarrow> X' = X) \<and>
           (y = YOther \<or> length B \<noteq> length X \<longrightarrow> X' = X))"
proof
  assume e: "snd (argcheck B y X w) = Inl e"
  let ?X' = "fst (argcheck B y X w)"
  have 1: "fit S B X y w = ((?X', B), Some e)" using e by (rule fit_argcheck_error)
  have 2: "length ?X' = length X"
    using argcheck_list [of B y X w] by (auto simp: convert_lists_length)
  have 3: "\<forall>j<length X.
              ?X' ! j = X ! j \<or>
              (\<exists>yfd l f. y = YFData yfd \<and> X ! j = PList l \<and> ?X' ! j = PFData f \<and>
                         constant_fdata (fd_domain_range yfd) l = Inr f)"
  proof (intro allI impI)
    fix j assume j: "j < length X"
    from argcheck_list [of B y X w] show "?X' ! j = X ! j \<or>
              (\<exists>yfd l f. y = YFData yfd \<and> X ! j = PList l \<and> ?X' ! j = PFData f \<and>
                         constant_fdata (fd_domain_range yfd) l = Inr f)"
    proof
      assume "?X' = X" then show ?thesis by simp
    next
      assume "\<exists>yfd. y = YFData yfd \<and> length B = length X \<and>
          ?X' = fst (convert_lists (fd_domain_range yfd) X)"
      then obtain yfd where y: "y = YFData yfd"
        and c: "?X' = fst (convert_lists (fd_domain_range yfd) X)" by blast
      from convert_lists_entries [OF j, of "fd_domain_range yfd"] y c
      show ?thesis by auto
    qed
  qed
  have 4: "list_all is_functional X \<longrightarrow> ?X' = X"
    using argcheck_list [of B y X w] by (auto simp: convert_lists_functional)
  have 5: "y = YOther \<or> length B \<noteq> length X \<longrightarrow> ?X' = X"
    using argcheck_early [of y B X w] by blast
  from 1 2 3 4 5 show "\<exists>X'. fit S B X y w = ((X', B), Some e) \<and>
           length X' = length X \<and>
           (\<forall>j<length X.
              X' ! j = X ! j \<or>
              (\<exists>yfd l f. y = YFData yfd \<and> X ! j = PList l \<and> X' ! j = PFData f \<and>
                         constant_fdata (fd_domain_range yfd) l = Inr f)) \<and>
           (list_all is_functional X \<longrightarrow> X' = X) \<and>
           (y = YOther \<or> length B \<noteq> length X \<longrightarrow> X' = X)"
    by blast
qed


lemma fit_negative_weight_example:
  "fit (\<lambda>y xs w b. Inl LinAlgError) [BBasis (Monomial (0, 1) 1)] [PList [1, 2, 3]]
     (YFData (fd_of (Monomial (0, 1) 1) [[1], [2], [3]])) (Some [- 1, 1, 1])
   = (([PFData \<lparr>basis = \<lparr>family = ''Constant'', domain_range = (0, 1), n_basis = 1\<rparr>,
                 coefficients = \<lparr>ncols = 1, rows = [[1], [2], [3]]\<rparr>\<rparr>],
       [BBasis (Monomial (0, 1) 1)]), Some ValueError)"
  by code_simp

lemma argcheck_examples:
  "snd (argcheck [BBasis (Monomial (0, 1) 1)]
          (YFData (fd_of (Monomial (0, 1) 1) [[1], [2], [3]])) [PList [1, 2, 3]]
          (Some [- 1, 1, 1])) = Inl ValueError"
  "snd (argcheck [BBasis (Monomial (0, 1) 1)]
          (YFData (fd_of (Monomial (0, 1) 1) [[1], [2], [3]]))
          [PFData (fd_of (Monomial (0, 1) 1) [[1], [2]])] None) = Inl ValueError"
  by code_simp+

theorem fit_validation_error_witness:
  "snd (argcheck [BBasis (Monomial (0, 1) 1)]
          (YFData (fd_of (Monomial (0, 1) 1) [[1], [2], [3]])) [PList [1, 2, 3]]
          (Some [- 1, 1, 1])) = Inl ValueError \<and>
   (\<exists>X'. fit (\<lambda>y xs w b. Inl LinAlgError) [BBasis (Monomial (0, 1) 1)] [PList [1, 2, 3]]
           (YFData (fd_of (Monomial (0, 1) 1) [[1], [2], [3]])) (Some [- 1, 1, 1])
         = ((X', [BBasis (Monomial (0, 1) 1)]), Some ValueError) \<and>
         length X' = length [PList [1, 2, 3]]) \<and>
   snd (argcheck [BBasis (Monomial (0, 1) 1)]
          (YFData (fd_of (Monomial (0, 1) 1) [[1], [2], [3]]))
          [PFData (fd_of (Monomial (0, 1) 1) [[1], [2]])] None) = Inl ValueError \<and>
   fit (\<lambda>y xs w b. Inl LinAlgError) [BBasis (Monomial (0, 1) 1)]
       [PFData (fd_of (Monomial (0, 1) 1) [[1], [2]])]
       (YFData (fd_of (Monomial (0, 1) 1) [[1], [2], [3]])) None
     = (([PFData (fd_of (Monomial (0, 1) 1) [[1], [2]])], [BBasis (Monomial (0, 1) 1)]),
        Some ValueError)"
proof -
  let ?B = "[BBasis (Monomial (0, 1) 1)]"
  let ?y = "YFData (fd_of (Monomial (0, 1) 1) [[1], [2], [3]])"
  let ?S = "\<lambda>(y::fdatabasis) (xs::fdatabasis list) (w::real list) (b::beta_entry list).
              (Inl LinAlgError :: error + real list)"
  let ?X1 = "[PFData (fd_of (Monomial (0, 1) 1) [[1], [2]])]"
  from fit_validation_error
    [where B = ?B and y = ?y and X = "[PList [1, 2, 3]]" and w = "Some [- 1, 1, 1]"
       and e = ValueError and S = ?S] argcheck_examples(1)
  have a: "\<exists>X'. fit ?S ?B [PList [1, 2, 3]] ?y (Some [- 1, 1, 1])
         = ((X', ?B), Some ValueError) \<and> length X' = length [PList [1, 2, 3]]"
    by blast
  have f: "list_all is_functional ?X1" by simp
  from fit_validation_error
    [where B = ?B and y = ?y and X = ?X1 and w = None and e = ValueError and S = ?S]
    argcheck_examples(2) f
  have b: "fit ?S ?B ?X1 ?y None = ((?X1, ?B), Some ValueError)"
    by blast
  from argcheck_examples(1) a argcheck_examples(2) b show ?thesis by (intro conjI)
qed

text \<open>
  A predictor given as a list, and a negative weight: \<open>fit\<close> raises \<open>ValueError\<close>, and
  the caller's list \<open>X\<close> now holds a functional object in place of the list.
\<close>

theorem fit_modifies_X_counterexample:
  "fit (\<lambda>y xs w b. Inl LinAlgError) [BBasis (Monomial (0, 1) 1)] [PList [1, 2, 3]]
     (YFData (fd_of (Monomial (0, 1) 1) [[1], [2], [3]])) (Some [- 1, 1, 1])
   = (([PFData \<lparr>basis = \<lparr>family = ''Constant'', domain_range = (0, 1), n_basis = 1\<rparr>,
                 coefficients = \<lparr>ncols = 1, rows = [[1], [2], [3]]\<rparr>\<rparr>],
       [BBasis (Monomial (0, 1) 1)]), Some ValueError) \<and>
   [PFData \<lparr>basis = \<lparr>family = ''Constant'', domain_range = (0, 1), n_basis = 1\<rparr>,
            coefficients = \<lparr>ncols = 1, rows = [[1], [2], [3]]\<rparr>\<rparr>]
     \<noteq> [PList [1, 2, 3]]"
  using fit_negative_weight_example by simp

lemma dot_sum:
  "length xs = length ys \<Longrightarrow> dot xs ys = (\<Sum>i<length xs. xs ! i * ys ! i)"
  by (simp add: dot_def sum_list_sum_nth atLeast0LessThan)

lemma dot_column:
  assumes "length v = length (rows bv)"
  shows "dot v (column bv j) = (\<Sum>k<length v. v ! k * (rows bv ! k ! j))"
  using assms by (simp add: dot_sum column_def)

lemma dot_fitted:
  assumes "length r = ncols bv"
  shows "dot r (fitted bv c) = (\<Sum>j<ncols bv. r ! j * dot c (column bv j))"
  using assms by (simp add: dot_sum fitted_def)


lemma normal_equations_unique:
  assumes rect: "rectangular bv"
    and nd: "nondegenerate bv"
    and lc: "length c = length (rows bv)"
    and ne: "normal_equations bv (fitted bv c) c'"
  shows "c' = c"
proof -
  let ?n = "length (rows bv)"
  let ?m = "ncols bv"
  let ?B = "\<lambda>k j. rows bv ! k ! j"
  from ne have lc': "length c' = ?n"
    and eqs: "\<forall>r\<in>set (rows bv). dot r (fitted bv c') = dot r (fitted bv c)"
    by (auto simp: normal_equations_def list_all_iff)
  from rect have rl: "\<And>k. k < ?n \<Longrightarrow> length (rows bv ! k) = ?m"
    by (auto simp: rectangular_def list_all_iff)
  define v where "v = map2 (-) c' c"
  have lv: "length v = ?n" and vk: "\<And>k. k < ?n \<Longrightarrow> v ! k = c' ! k - c ! k"
    using lc lc' by (auto simp: v_def)
  define s where "s = (\<lambda>j. dot v (column bv j))"
  have s_sum: "s j = (\<Sum>k<?n. v ! k * ?B k j)" for j
    using dot_column [of v bv j] lv by (simp add: s_def)
  have s_diff: "s j = dot c' (column bv j) - dot c (column bv j)" for j
    unfolding s_sum using lc lc'
    by (simp add: dot_column vk left_diff_distrib sum_subtractf)
  have row: "(\<Sum>j<?m. ?B k j * s j) = 0" if k: "k < ?n" for k
  proof -
    from k have "rows bv ! k \<in> set (rows bv)" by simp
    with eqs have "dot (rows bv ! k) (fitted bv c') = dot (rows bv ! k) (fitted bv c)"
      by blast
    then have "(\<Sum>j<?m. ?B k j * dot c' (column bv j))
        = (\<Sum>j<?m. ?B k j * dot c (column bv j))"
      using rl [OF k] by (simp add: dot_fitted)
    then show ?thesis
      by (simp add: s_diff right_diff_distrib sum_subtractf)
  qed
  have "(\<Sum>j<?m. s j * s j) = (\<Sum>j<?m. \<Sum>k<?n. v ! k * (?B k j * s j))"
    by (subst s_sum) (simp add: sum_distrib_right mult.assoc)
  also have "\<dots> = (\<Sum>k<?n. \<Sum>j<?m. v ! k * (?B k j * s j))"
    by (rule sum.swap)
  also have "\<dots> = (\<Sum>k<?n. v ! k * (\<Sum>j<?m. ?B k j * s j))"
    by (simp add: sum_distrib_left)
  also have "\<dots> = 0"
    by (simp add: row)
  finally have "(\<Sum>j<?m. s j * s j) = 0" .
  then have "\<forall>j\<in>{..<?m}. s j * s j = 0"
    by (subst (asm) sum_nonneg_eq_0_iff) auto
  then have "\<forall>j<?m. dot v (column bv j) = 0"
    by (simp add: s_def)
  with nd lv have "\<forall>k<length v. v ! k = 0"
    unfolding nondegenerate_def by blast
  then have "\<And>k. k < ?n \<Longrightarrow> c' ! k = c ! k"
    using lv vk by simp
  then show ?thesis
    using lc lc' by (intro nth_equalityI) simp_all
qed


lemma evaluate_fitted:
  assumes "evaluate E fd pts 0 = Inr data"
  shows "data = map (fitted (basis_evaluate E (basis fd) pts 0)) (rows (coefficients fd)) \<and>
         ncols (coefficients fd) = length (rows (basis_evaluate E (basis fd) pts 0))"
  using assms
  by (auto simp: evaluate_def matmul_def fitted_def bind_err_Inr split: if_splits)

lemma normal_equations_fitted:
  assumes "rectangular bv" "length c = length (rows bv)"
  shows "normal_equations bv (fitted bv c) c"
  using assms by (simp add: normal_equations_def fitted_def list_all_iff)

text \<open>
  C6: in exact arithmetic the round trip is exact. Let the coefficient matrix of \<open>fd\<close>
  be well formed, let the basis values at the points form an \<open>n_basis \<times> len(points)\<close>
  matrix, and let the basis be not degenerate on the points. Then \<open>fd\<close> itself is a
  least-squares projection of its values at the points, and every least-squares
  projection of those values onto the same basis at the same points is \<open>fd\<close>: the
  coefficients are recovered. (Non-degeneracy already needs at least \<open>n_basis\<close>
  different points.)
\<close>

theorem from_data_round_trip:
  assumes inv: "invariant fd"
    and rc: "rectangular (coefficients fd)"
    and rb: "rectangular (basis_evaluate E (basis fd) pts 0)"
    and nd: "nondegenerate (basis_evaluate E (basis fd) pts 0)"
    and ev: "evaluate E fd pts 0 = Inr data"
  shows "from_data_spec E data pts (basis fd) fd \<and>
         (\<forall>fd'. from_data_spec E data pts (basis fd) fd' \<longrightarrow> fd' = fd)"
proof -
  let ?bv = "basis_evaluate E (basis fd) pts 0"
  let ?cs = "rows (coefficients fd)"
  from evaluate_fitted [OF ev] have data: "data = map (fitted ?bv) ?cs"
    and n: "ncols (coefficients fd) = length (rows ?bv)" by simp_all
  from rc n have len: "\<And>c. c \<in> set ?cs \<Longrightarrow> length c = length (rows ?bv)"
    by (auto simp: rectangular_def list_all_iff)
  have own: "from_data_spec E data pts (basis fd) fd"
    unfolding from_data_spec_def data
    using inv len rb
    by (auto simp: list_all2_conv_all_nth intro!: normal_equations_fitted)
  have uniq: "fd' = fd" if spec: "from_data_spec E data pts (basis fd) fd'" for fd'
  proof -
    from spec have b: "basis fd' = basis fd" and i: "invariant fd'"
      and all: "list_all2 (normal_equations ?bv) (map (fitted ?bv) ?cs) (rows (coefficients fd'))"
      by (simp_all add: from_data_spec_def data)
    from all have l: "length (rows (coefficients fd')) = length ?cs"
      by (auto dest: list_all2_lengthD)
    have "rows (coefficients fd') ! k = ?cs ! k" if k: "k < length ?cs" for k
    proof -
      from all k l have ne: "normal_equations ?bv (fitted ?bv (?cs ! k))
          (rows (coefficients fd') ! k)"
        by (auto simp: list_all2_conv_all_nth)
      from k have lk: "length (?cs ! k) = length (rows ?bv)" by (simp add: len)
      show ?thesis by (rule normal_equations_unique [OF rb nd lk ne])
    qed
    with l have r: "rows (coefficients fd') = ?cs" by (intro nth_equalityI) simp_all
    from i inv b have "ncols (coefficients fd') = ncols (coefficients fd)"
      by (simp add: invariant_def shape1_def)
    with r have "coefficients fd' = coefficients fd" by simp
    with b show ?thesis by simp
  qed
  from own uniq show ?thesis by blast
qed


lemma monomial_values_example:
  "basis_evaluate monomial_externals (Monomial (0, 2) 2) [0, 1, 2] 0
     = \<lparr>ncols = 3, rows = [[1, 1, 1], [0, 1, 2]]\<rparr>"
  by code_simp

lemma nondegenerate_example: "nondegenerate \<lparr>ncols = 3, rows = [[1, 1, 1], [0, 1, 2]]\<rparr>"
  unfolding nondegenerate_def
proof (intro allI impI)
  fix v :: "real list" and k
  assume l: "length v = length (rows \<lparr>ncols = 3, rows = [[1, 1, 1], [0, 1, 2]]\<rparr>)"
    and z: "\<forall>j<ncols \<lparr>ncols = 3, rows = [[1, 1, 1], [0, 1, 2 :: real]]\<rparr>.
              dot v (column \<lparr>ncols = 3, rows = [[1, 1, 1], [0, 1, 2]]\<rparr> j) = 0"
    and k: "k < length v"
  from l obtain a b where v: "v = [a, b]"
    by (cases v; cases "tl v") auto
  from z have "dot v (column \<lparr>ncols = 3, rows = [[1, 1, 1], [0, 1, 2]]\<rparr> 0) = 0"
    and "dot v (column \<lparr>ncols = 3, rows = [[1, 1, 1], [0, 1, 2]]\<rparr> 1) = 0"
    by simp_all
  then have "a = 0" "b = 0" by (simp_all add: v dot_def column_def)
  with k v show "v ! k = 0" by (cases k) simp_all
qed

theorem from_data_round_trip_witness:
  "evaluate monomial_externals (fd_of (Monomial (0, 2) 2) [[1, 2]]) [0, 1, 2] 0
     = Inr [[1, 3, 5]] \<and>
   from_data_spec monomial_externals [[1, 3, 5]] [0, 1, 2] (Monomial (0, 2) 2)
     (fd_of (Monomial (0, 2) 2) [[1, 2]]) \<and>
   \<not> from_data_spec monomial_externals [[1, 3, 5]] [0, 1, 2] (Monomial (0, 2) 2)
       (fd_of (Monomial (0, 2) 2) [[1, 3]])"
proof -
  let ?F = "fd_of (Monomial (0, 2) 2) [[1, 2]]"
  have b: "basis ?F = Monomial (0, 2) 2" by (simp add: fd_of_def)
  have inv: "invariant ?F" "rectangular (coefficients ?F)"
    by (simp_all add: demo_defs invariant_def shape1_def rectangular_def)
  have rb: "rectangular (basis_evaluate monomial_externals (basis ?F) [0, 1, 2] 0)"
    unfolding b monomial_values_example by (simp add: rectangular_def)
  have nd: "nondegenerate (basis_evaluate monomial_externals (basis ?F) [0, 1, 2] 0)"
    unfolding b monomial_values_example by (rule nondegenerate_example)
  have ev: "evaluate monomial_externals ?F [0, 1, 2] 0 = Inr [[1, 3, 5]]"
    by code_simp
  note T = from_data_round_trip [OF inv rb nd ev, unfolded b]
  have ne: "fd_of (Monomial (0, 2) 2) [[1, 3]] \<noteq> ?F"
    by (simp add: fd_of_def)
  from T have 1: "from_data_spec monomial_externals [[1, 3, 5]] [0, 1, 2] (Monomial (0, 2) 2) ?F"
    by blast
  from T ne have 2: "\<not> from_data_spec monomial_externals [[1, 3, 5]] [0, 1, 2]
      (Monomial (0, 2) 2) (fd_of (Monomial (0, 2) 2) [[1, 3]])"
    by blast
  from ev 1 2 show ?thesis by (intro conjI)
qed

end
